theory Spec2Isabelle
  imports Main
begin

section \<open>JavaScript values and objects\<close>

text \<open>
  The handlers are written against \<^verbatim>\<open>req: any\<close>: a property that an object does not have
  reads as \<^verbatim>\<open>undefined\<close>. Objects whose shape matters for that reason (the row attached
  as \<^verbatim>\<open>req.user\<close>, the expense data handed to the schema, the filter object) are property
  lists; a lookup takes the first entry of a key, so consing an entry overrides it, as a
  later key of an object literal does.
\<close>

datatype jsval =
    JUndefined
  | JNull
  | JStr string
  | JNum int
  | JBool bool
  | JDate "int option"
  | JList "string list"

type_synonym jsobj = "(string \<times> jsval) list"

definition js_get :: "jsobj \<Rightarrow> string \<Rightarrow> jsval" where
  "js_get obj k = (case map_of obj k of None \<Rightarrow> JUndefined | Some v \<Rightarrow> v)"

definition js_set :: "jsobj \<Rightarrow> string \<Rightarrow> jsval \<Rightarrow> jsobj" where
  "js_set obj k v = (k, v) # obj"

fun truthy :: "jsval \<Rightarrow> bool" where
  "truthy JUndefined = False"
| "truthy JNull = False"
| "truthy (JStr s) = (s \<noteq> [])"
| "truthy (JNum n) = (n \<noteq> 0)"
| "truthy (JBool b) = b"
| "truthy (JDate d) = True"
| "truthy (JList xs) = True"

text \<open>
  Request bodies and query strings are flat objects whose present fields are strings
  (what a form or a JSON object of strings carries); an absent field is \<open>None\<close>.
\<close>

type_synonym fields = "(string \<times> string) list"

definition field :: "fields \<Rightarrow> string \<Rightarrow> string option" where
  "field fs k = map_of fs k"

fun truthy_field :: "string option \<Rightarrow> bool" where
  "truthy_field None = False"
| "truthy_field (Some s) = (s \<noteq> [])"

definition fields_obj :: "fields \<Rightarrow> jsobj" where
  "fields_obj fs = map (\<lambda>(k, v). (k, JStr v)) fs"

fun opt_str :: "string option \<Rightarrow> jsval" where
  "opt_str None = JNull"
| "opt_str (Some s) = JStr s"

fun opt_date :: "int option \<Rightarrow> jsval" where
  "opt_date None = JNull"
| "opt_date (Some t) = JDate (Some t)"

section \<open>Persisted schema (src/migrations/0000_dusty_paibok.sql)\<close>

text \<open>
  The \<^verbatim>\<open>users\<close> table: \<^verbatim>\<open>id\<close> is the primary key, every other column is nullable,
  \<^verbatim>\<open>email\<close> is unique. There is no \<^verbatim>\<open>user_id\<close> column.
\<close>

record user_row =
  u_id :: string
  u_email :: "string option"
  u_password :: "string option"
  u_firstName :: "string option"
  u_lastName :: "string option"
  u_profileImageUrl :: "string option"
  u_createdAt :: "int option"
  u_updatedAt :: "int option"
  u_language :: "string option"
  u_currency :: "string option"
  u_timezone :: "string option"
  u_theme :: "string option"
  u_onboardingCompleted :: "bool option"

text \<open>
  The object a \<^verbatim>\<open>db.select().from(users)\<close> row is: one property per column, under the names
  the code reads (\<^verbatim>\<open>user.id\<close>, \<^verbatim>\<open>user.email\<close>, \<^verbatim>\<open>user.password\<close>, \<^verbatim>\<open>user.firstName\<close>, ...).
\<close>

definition user_obj :: "user_row \<Rightarrow> jsobj" where
  "user_obj u =
     [(''id'', JStr (u_id u)),
      (''email'', opt_str (u_email u)),
      (''password'', opt_str (u_password u)),
      (''firstName'', opt_str (u_firstName u)),
      (''lastName'', opt_str (u_lastName u)),
      (''profileImageUrl'', opt_str (u_profileImageUrl u)),
      (''createdAt'', opt_date (u_createdAt u)),
      (''updatedAt'', opt_date (u_updatedAt u)),
      (''language'', opt_str (u_language u)),
      (''currency'', opt_str (u_currency u)),
      (''timezone'', opt_str (u_timezone u)),
      (''theme'', opt_str (u_theme u)),
      (''onboardingCompleted'', (case u_onboardingCompleted u of None \<Rightarrow> JNull | Some b \<Rightarrow> JBool b))]"

text \<open>The \<^verbatim>\<open>expenses\<close> table; \<^verbatim>\<open>user_id\<close>, \<^verbatim>\<open>category\<close> and \<^verbatim>\<open>description\<close> are NOT NULL.\<close>

record expense =
  e_id :: string
  e_userId :: string
  e_amount :: string
  e_type :: string
  e_description :: string
  e_category :: string
  e_date :: int
  e_location :: "string option"
  e_latitude :: "string option"
  e_longitude :: "string option"
  e_mood :: "string option"
  e_rating :: "int option"
  e_receiptUrl :: "string option"
  e_tags :: "string list option"
  e_createdAt :: "int option"
  e_updatedAt :: "int option"

record store =
  users :: "user_row list"
  expenses :: "expense list"

section \<open>Requests, responses and the collaborators outside the repository\<close>

datatype http_method = GET | POST | PUT | PATCH | DELETE

record request =
  req_method :: http_method
  req_path :: "string list"
  req_authorization :: "string option"
  req_body :: fields
  req_query :: fields
  req_params :: fields
  req_file :: "string option"
  req_userId :: jsval
  req_user :: "jsobj option"

record public_user =
  p_id :: string
  p_email :: "string option"
  p_firstName :: "string option"
  p_lastName :: "string option"
  p_profileImageUrl :: "string option"

datatype body =
    Message string
  | AuthBody string string public_user
  | UserBody public_user
  | UserRowBody "user_row option"
  | ExpenseList "expense list"
  | ExpenseBody "expense option"

record response =
  status :: nat
  body :: body

datatype jwt_error = JsonWebTokenError | TokenExpiredError | NotBeforeError

record analysis =
  suggestedCategory :: string
  tags :: "string list"

text \<open>
  What the handlers call and the repository does not hold: the jsonwebtoken and bcryptjs
  libraries, the clock and the UUID source, the zod schema of \<^verbatim>\<open>@shared/schema\<close>, the AI
  service, the number conversions of JavaScript, and the parts of the storage module the
  specification does not describe. Each is a parameter: a thrown exception is \<open>None\<close>
  (\<open>Inl\<close> for \<^verbatim>\<open>jwt.verify\<close>, whose error kinds the specification names).
  \<^verbatim>\<open>jwt_verify\<close> answers for the secret and the clock of the request at hand, and yields the
  \<^verbatim>\<open>userId\<close> of the decoded payload, a string: the tokens of this secret are those
  \<^verbatim>\<open>jwt.sign\<close> made of a user id. The users table is a list, read and written without
  failure other than a violated constraint.
\<close>

record env =
  jwt_sign :: "string \<Rightarrow> string \<Rightarrow> string"
  jwt_verify :: "string \<Rightarrow> jwt_error + string"
  bcrypt_hash :: "string \<Rightarrow> string"
  bcrypt_compare :: "string \<Rightarrow> string option \<Rightarrow> bool option"
  randomUUID :: string
  now :: int
  insertExpenseSchema_parse :: "jsobj \<Rightarrow> jsobj option"
  analyzeExpense :: "jsval \<Rightarrow> jsval \<Rightarrow> jsval \<Rightarrow> analysis option"
  js_parseFloat :: "string option \<Rightarrow> jsval"
  js_Number :: "jsval \<Rightarrow> jsval"
  js_Date :: "string \<Rightarrow> int option"
  insert_expense_row :: "jsobj \<Rightarrow> expense option"
  apply_expense_updates :: "jsobj \<Rightarrow> expense \<Rightarrow> expense"

type_synonym handler = "env \<Rightarrow> request \<Rightarrow> store \<Rightarrow> response \<times> store"

definition json :: "body \<Rightarrow> response" where
  "json b = \<lparr>status = 200, body = b\<rparr>"

definition status_json :: "nat \<Rightarrow> string \<Rightarrow> response" where
  "status_json code msg = \<lparr>status = code, body = Message msg\<rparr>"

section \<open>localAuth: the middleware and the authentication routes\<close>

text \<open>
  The source declares \<^verbatim>\<open>setupAuth\<close> twice; the second declaration, which registers the
  routes, is the one modelled.
\<close>

fun startsWith :: "string \<Rightarrow> string \<Rightarrow> bool" where
  "startsWith s [] = True"
| "startsWith [] (p # ps) = False"
| "startsWith (c # cs) (p # ps) = (c = p \<and> startsWith cs ps)"

definition select_user_by_id :: "string \<Rightarrow> store \<Rightarrow> user_row list" where
  "select_user_by_id uid st = take 1 (filter (\<lambda>u. u_id u = uid) (users st))"

definition select_user_by_email :: "string \<Rightarrow> store \<Rightarrow> user_row list" where
  "select_user_by_email email st = take 1 (filter (\<lambda>u. u_email u = Some email) (users st))"

text \<open>
  \<^verbatim>\<open>isAuthenticated\<close>: \<open>Inl\<close> is the response it ends the request with, \<open>Inr\<close> is
  \<^verbatim>\<open>next()\<close> with the request as the middleware leaves it.
\<close>

definition isAuthenticated :: "env \<Rightarrow> request \<Rightarrow> store \<Rightarrow> response + request" where
  "isAuthenticated ev req st =
     (case req_authorization req of
        None \<Rightarrow> Inl (status_json 401 ''No token provided'')
      | Some authHeader \<Rightarrow>
          if authHeader = [] \<or> \<not> startsWith authHeader ''Bearer ''
          then Inl (status_json 401 ''No token provided'')
          else
            (case jwt_verify ev (drop 7 authHeader) of
               Inl err \<Rightarrow> Inl (status_json 401 ''Invalid token'')
             | Inr decoded_userId \<Rightarrow>
                 (case select_user_by_id decoded_userId st of
                    [] \<Rightarrow> Inl (status_json 401 ''User not found'')
                  | u # rest \<Rightarrow>
                      Inr (req\<lparr>req_userId := JStr decoded_userId,
                               req_user := Some (user_obj u)\<rparr>))))"

text \<open>A route registered as \<^verbatim>\<open>app.METHOD(path, isAuthenticated, handler)\<close>.\<close>

definition guarded :: "handler \<Rightarrow> handler" where
  "guarded h ev req st =
     (case isAuthenticated ev req st of
        Inl resp \<Rightarrow> (resp, st)
      | Inr req' \<Rightarrow> h ev req' st)"

definition public_of :: "user_row \<Rightarrow> public_user" where
  "public_of u =
     \<lparr>p_id = u_id u, p_email = u_email u, p_firstName = u_firstName u,
      p_lastName = u_lastName u, p_profileImageUrl = u_profileImageUrl u\<rparr>"

text \<open>
  \<^verbatim>\<open>db.insert(users).values(...).returning()\<close>: the primary key and the unique constraint on
  \<^verbatim>\<open>email\<close> make the insert throw; the columns the values do not name take their defaults.
\<close>

definition insert_user :: "user_row \<Rightarrow> store \<Rightarrow> store option" where
  "insert_user row st =
     (if list_ex (\<lambda>u. u_id u = u_id row) (users st)
         \<or> list_ex (\<lambda>u. u_email row \<noteq> None \<and> u_email u = u_email row) (users st)
      then None
      else Some (st\<lparr>users := users st @ [row]\<rparr>))"

definition register :: handler where
  "register ev req st =
     (let email = field (req_body req) ''email'';
          password = field (req_body req) ''password'';
          firstName = field (req_body req) ''firstName'';
          lastName = field (req_body req) ''lastName''
      in
        if \<not> truthy_field email \<or> \<not> truthy_field password
           \<or> \<not> truthy_field firstName \<or> \<not> truthy_field lastName
        then (status_json 400 ''All fields are required'', st)
        else if length (select_user_by_email (the email) st) > 0
        then (status_json 400 ''User already exists'', st)
        else
          (let row = \<lparr>u_id = randomUUID ev, u_email = email,
                      u_password = Some (bcrypt_hash ev (the password)),
                      u_firstName = firstName, u_lastName = lastName,
                      u_profileImageUrl = None,
                      u_createdAt = Some (now ev), u_updatedAt = Some (now ev),
                      u_language = Some ''en'', u_currency = Some ''USD'',
                      u_timezone = Some ''UTC'', u_theme = Some ''light'',
                      u_onboardingCompleted = Some False\<rparr>
           in case insert_user row st of
                None \<Rightarrow> (status_json 500 ''Internal server error'', st)
              | Some st' \<Rightarrow>
                  (json (AuthBody ''User created successfully''
                           (jwt_sign ev (u_id row) ''7d'') (public_of row)), st')))"

definition login :: handler where
  "login ev req st =
     (let email = field (req_body req) ''email'';
          password = field (req_body req) ''password''
      in
        if \<not> truthy_field email \<or> \<not> truthy_field password
        then (status_json 400 ''Email and password are required'', st)
        else
          (case select_user_by_email (the email) st of
             [] \<Rightarrow> (status_json 401 ''Invalid credentials'', st)
           | user # rest \<Rightarrow>
               (case bcrypt_compare ev (the password) (u_password user) of
                  None \<Rightarrow> (status_json 500 ''Internal server error'', st)
                | Some isPasswordValid \<Rightarrow>
                    if \<not> isPasswordValid
                    then (status_json 401 ''Invalid credentials'', st)
                    else (json (AuthBody ''Login successful''
                                  (jwt_sign ev (u_id user) ''7d'') (public_of user)), st))))"

text \<open>
  The handler of \<^verbatim>\<open>GET /api/auth/user\<close> in localAuth, behind \<^verbatim>\<open>isAuthenticated\<close>. It reads
  \<^verbatim>\<open>req.userId\<close>; a value that is not a string matches no row.
\<close>

definition auth_user :: handler where
  "auth_user ev req st =
     (case (case req_userId req of JStr uid \<Rightarrow> select_user_by_id uid st | _ \<Rightarrow> []) of
        [] \<Rightarrow> (status_json 404 ''User not found'', st)
      | user # rest \<Rightarrow> (json (UserBody (public_of user)), st))"

definition logout :: handler where
  "logout ev req st = (json (Message ''Logged out successfully''), st)"

section \<open>The storage module, as the specification describes it\<close>

text \<open>
  \<^verbatim>\<open>./storage\<close> is imported by routes.ts and is not among the sources. Its operations follow
  section 4.3 of the specification. The handlers pass \<^verbatim>\<open>req.user.userId\<close>, whatever value
  that is, so the user id is a \<open>jsval\<close>; a value that is not a string equals no
  \<^verbatim>\<open>user_id\<close> of a row.
\<close>

text \<open>
  Modelled from the spec: the recognised filters of \<^verbatim>\<open>storage.getExpenses\<close>, which is absent
  from the sources. \<^verbatim>\<open>category\<close> is an exact match, \<^verbatim>\<open>startDate\<close> and \<^verbatim>\<open>endDate\<close> bound the
  date of the expense inclusively, \<^verbatim>\<open>tags\<close> asks for a common tag, \<^verbatim>\<open>search\<close> for a substring
  of the description; a filter that is absent (or not of the type the handler makes of it)
  constrains nothing. An invalid date compares false with every date.
\<close>

fun str_includes :: "string \<Rightarrow> string \<Rightarrow> bool" where
  "str_includes [] s = (s = [])"
| "str_includes (c # cs) s = (startsWith (c # cs) s \<or> str_includes cs s)"

definition filter_category :: "jsobj \<Rightarrow> expense \<Rightarrow> bool" where
  "filter_category f e = (case js_get f ''category'' of JStr c \<Rightarrow> e_category e = c | _ \<Rightarrow> True)"

definition filter_startDate :: "jsobj \<Rightarrow> expense \<Rightarrow> bool" where
  "filter_startDate f e =
     (case js_get f ''startDate'' of
        JDate d \<Rightarrow> (case d of Some t \<Rightarrow> t \<le> e_date e | None \<Rightarrow> False)
      | _ \<Rightarrow> True)"

definition filter_endDate :: "jsobj \<Rightarrow> expense \<Rightarrow> bool" where
  "filter_endDate f e =
     (case js_get f ''endDate'' of
        JDate d \<Rightarrow> (case d of Some t \<Rightarrow> e_date e \<le> t | None \<Rightarrow> False)
      | _ \<Rightarrow> True)"

definition filter_tags :: "jsobj \<Rightarrow> expense \<Rightarrow> bool" where
  "filter_tags f e =
     (case js_get f ''tags'' of
        JList ts \<Rightarrow> (case e_tags e of None \<Rightarrow> False | Some ets \<Rightarrow> list_ex (\<lambda>t. List.member ets t) ts)
      | _ \<Rightarrow> True)"

definition filter_search :: "jsobj \<Rightarrow> expense \<Rightarrow> bool" where
  "filter_search f e = (case js_get f ''search'' of JStr s \<Rightarrow> str_includes (e_description e) s | _ \<Rightarrow> True)"

text \<open>
  Modelled from the spec: the owning-user equality \<^verbatim>\<open>entity.userId == user id\<close> of the
  absent storage module.
\<close>

definition owned_by :: "jsval \<Rightarrow> expense \<Rightarrow> bool" where
  "owned_by userId e = (JStr (e_userId e) = userId)"

text \<open>
  Modelled from the spec: \<^verbatim>\<open>storage.getExpenses(userId, filters?)\<close>. The owning-user equality
  is unconditional; each recognised filter that is present is one more conjunct.
\<close>

definition getExpenses :: "jsval \<Rightarrow> jsobj \<Rightarrow> expense list \<Rightarrow> expense list" where
  "getExpenses userId filters es =
     filter (\<lambda>e. owned_by userId e \<and> filter_category filters e \<and> filter_startDate filters e
                  \<and> filter_endDate filters e \<and> filter_tags filters e \<and> filter_search filters e) es"

text \<open>Modelled from the spec: \<^verbatim>\<open>storage.getExpenseById(id, userId)\<close>, scoped by the owner.\<close>

definition getExpenseById :: "jsval \<Rightarrow> jsval \<Rightarrow> expense list \<Rightarrow> expense option" where
  "getExpenseById eid userId es = find (\<lambda>e. JStr (e_id e) = eid \<and> owned_by userId e) es"

datatype storage_error = NotFound | InsertFailed

text \<open>
  Modelled from the spec: \<^verbatim>\<open>storage.updateExpense(id, userId, updates)\<close> re-checks ownership,
  fails with NotFound on an id that is absent or owned by another user, and then alters no row.
  How the updates change the row it does own is a parameter.
\<close>

definition updateExpense ::
  "env \<Rightarrow> jsval \<Rightarrow> jsval \<Rightarrow> jsobj \<Rightarrow> expense list \<Rightarrow> storage_error + (expense \<times> expense list)" where
  "updateExpense ev eid userId updates es =
     (case getExpenseById eid userId es of
        None \<Rightarrow> Inl NotFound
      | Some e \<Rightarrow>
          Inr (apply_expense_updates ev updates e,
               map (\<lambda>x. if JStr (e_id x) = eid \<and> owned_by userId x
                         then apply_expense_updates ev updates x else x) es))"

text \<open>Modelled from the spec: \<^verbatim>\<open>storage.deleteExpense(id, userId)\<close>, with the same ownership check.\<close>

definition deleteExpense :: "jsval \<Rightarrow> jsval \<Rightarrow> expense list \<Rightarrow> storage_error + expense list" where
  "deleteExpense eid userId es =
     (case getExpenseById eid userId es of
        None \<Rightarrow> Inl NotFound
      | Some e \<Rightarrow> Inr (filter (\<lambda>x. \<not> (JStr (e_id x) = eid \<and> owned_by userId x)) es))"

text \<open>
  Modelled from the spec: \<^verbatim>\<open>storage.createExpense(data)\<close> inserts one row; the row the database
  makes of the data (or its refusal, a NOT NULL column left out) is a parameter.
\<close>

definition createExpense :: "env \<Rightarrow> jsobj \<Rightarrow> expense list \<Rightarrow> storage_error + (expense \<times> expense list)" where
  "createExpense ev data es =
     (case insert_expense_row ev data of
        None \<Rightarrow> Inl InsertFailed
      | Some row \<Rightarrow> Inr (row, es @ [row]))"

text \<open>Modelled from the spec: \<^verbatim>\<open>storage.getUser(id)\<close>, the user record of that id.\<close>

definition getUser :: "jsval \<Rightarrow> user_row list \<Rightarrow> user_row option" where
  "getUser userId us = find (\<lambda>u. JStr (u_id u) = userId) us"

section \<open>routes.ts: the expense handlers\<close>

text \<open>
  Every resource handler starts with \<^verbatim>\<open>const userId = req.user.userId\<close> inside its
  \<^verbatim>\<open>try\<close>: \<open>None\<close> is the TypeError of reading a property of an undefined \<^verbatim>\<open>req.user\<close>,
  which the handler's \<^verbatim>\<open>catch\<close> turns into its 500.
\<close>

definition req_user_userId :: "request \<Rightarrow> jsval option" where
  "req_user_userId req = (case req_user req of None \<Rightarrow> None | Some user \<Rightarrow> Some (js_get user ''userId''))"

definition param_id :: "request \<Rightarrow> jsval" where
  "param_id req = (case field (req_params req) ''id'' of None \<Rightarrow> JUndefined | Some s \<Rightarrow> JStr s)"

definition receipt_of_file :: "request \<Rightarrow> jsval \<Rightarrow> jsval" where
  "receipt_of_file req otherwise =
     (case req_file req of Some filename \<Rightarrow> JStr (''/uploads/'' @ filename) | None \<Rightarrow> otherwise)"

text \<open>Lines 46-63: the first \<^verbatim>\<open>POST /api/expenses\<close>.\<close>

definition post_expenses_first :: handler where
  "post_expenses_first ev req st =
     (case req_user_userId req of
        None \<Rightarrow> (status_json 500 ''Failed to create expense'', st)
      | Some userId \<Rightarrow>
          (let expenseData =
                 [(''userId'', userId),
                  (''amount'', js_parseFloat ev (field (req_body req) ''amount'')),
                  (''receiptUrl'', receipt_of_file req JNull)] @ fields_obj (req_body req)
           in case insertExpenseSchema_parse ev expenseData of
                None \<Rightarrow> (status_json 500 ''Failed to create expense'', st)
              | Some validatedData \<Rightarrow>
                  (case createExpense ev validatedData (expenses st) of
                     Inl err \<Rightarrow> (status_json 500 ''Failed to create expense'', st)
                   | Inr (expense, es') \<Rightarrow>
                       (json (ExpenseBody (Some expense)), st\<lparr>expenses := es'\<rparr>))))"

text \<open>Lines 65-74: the first \<^verbatim>\<open>GET /api/expenses\<close>, which calls \<^verbatim>\<open>storage.getExpenses(userId)\<close>.\<close>

definition get_expenses_first :: handler where
  "get_expenses_first ev req st =
     (case req_user_userId req of
        None \<Rightarrow> (status_json 500 ''Failed to fetch expenses'', st)
      | Some userId \<Rightarrow> (json (ExpenseList (getExpenses userId [] (expenses st))), st))"

text \<open>Lines 76-93: \<^verbatim>\<open>PUT /api/expenses/:id\<close>.\<close>

definition put_expense :: handler where
  "put_expense ev req st =
     (case req_user_userId req of
        None \<Rightarrow> (status_json 500 ''Failed to update expense'', st)
      | Some userId \<Rightarrow>
          (let expenseData =
                 [(''amount'', js_parseFloat ev (field (req_body req) ''amount'')),
                  (''receiptUrl'',
                     receipt_of_file req (js_get (fields_obj (req_body req)) ''receiptUrl''))]
                 @ fields_obj (req_body req)
           in case updateExpense ev (param_id req) userId expenseData (expenses st) of
                Inl err \<Rightarrow> (status_json 500 ''Failed to update expense'', st)
              | Inr (expense, es') \<Rightarrow>
                  (json (ExpenseBody (Some expense)), st\<lparr>expenses := es'\<rparr>)))"

text \<open>Lines 95-105 and 229-239: the two \<^verbatim>\<open>DELETE /api/expenses/:id\<close>, of one body.\<close>

definition delete_expense :: handler where
  "delete_expense ev req st =
     (case req_user_userId req of
        None \<Rightarrow> (status_json 500 ''Failed to delete expense'', st)
      | Some userId \<Rightarrow>
          (case deleteExpense (param_id req) userId (expenses st) of
             Inl err \<Rightarrow> (status_json 500 ''Failed to delete expense'', st)
           | Inr es' \<Rightarrow>
               (json (Message ''Expense deleted successfully''), st\<lparr>expenses := es'\<rparr>)))"

text \<open>Lines 132-141: the \<^verbatim>\<open>GET /api/auth/user\<close> of routes.ts.\<close>

definition auth_user_storage :: handler where
  "auth_user_storage ev req st =
     (case req_user_userId req of
        None \<Rightarrow> (status_json 500 ''Failed to fetch user'', st)
      | Some userId \<Rightarrow> (json (UserRowBody (getUser userId (users st))), st))"

text \<open>Lines 157-179: the second \<^verbatim>\<open>POST /api/expenses\<close>, with the AI categorization.\<close>

definition post_expenses_second :: handler where
  "post_expenses_second ev req st =
     (case req_user_userId req of
        None \<Rightarrow> (status_json 500 ''Failed to create expense'', st)
      | Some userId \<Rightarrow>
          (case insertExpenseSchema_parse ev ((''userId'', userId) # fields_obj (req_body req)) of
             None \<Rightarrow> (status_json 500 ''Failed to create expense'', st)
           | Some expenseData \<Rightarrow>
               (let categorized =
                      (if \<not> truthy (js_get expenseData ''category'')
                          \<and> truthy (js_get expenseData ''description'')
                       then
                         (case analyzeExpense ev (js_get expenseData ''description'')
                                 (js_Number ev (js_get expenseData ''amount''))
                                 (js_get expenseData ''location'') of
                            None \<Rightarrow> None
                          | Some a \<Rightarrow>
                              Some (js_set (js_set expenseData ''category'' (JStr (suggestedCategory a)))
                                      ''tags'' (JList (tags a))))
                       else Some expenseData)
                in case categorized of
                     None \<Rightarrow> (status_json 500 ''Failed to create expense'', st)
                   | Some data \<Rightarrow>
                       (case createExpense ev data (expenses st) of
                          Inl err \<Rightarrow> (status_json 500 ''Failed to create expense'', st)
                        | Inr (expense, es') \<Rightarrow>
                            (json (ExpenseBody (Some expense)), st\<lparr>expenses := es'\<rparr>)))))"

text \<open>Lines 181-197: the second \<^verbatim>\<open>GET /api/expenses\<close>, which forwards \<^verbatim>\<open>req.query\<close>.\<close>

fun split_comma :: "string \<Rightarrow> string list" where
  "split_comma [] = [[]]"
| "split_comma (c # cs) =
     (if c = CHR '','' then [] # split_comma cs
      else (case split_comma cs of [] \<Rightarrow> [[c]] | w # ws \<Rightarrow> (c # w) # ws))"

definition convert_date :: "env \<Rightarrow> string \<Rightarrow> jsobj \<Rightarrow> jsobj" where
  "convert_date ev k filters =
     (case js_get filters k of
        JStr s \<Rightarrow> if s \<noteq> [] then js_set filters k (JDate (js_Date ev s)) else filters
      | _ \<Rightarrow> filters)"

definition convert_tags :: "jsobj \<Rightarrow> jsobj" where
  "convert_tags filters =
     (case js_get filters ''tags'' of
        JStr s \<Rightarrow> if s \<noteq> [] then js_set filters ''tags'' (JList (split_comma s)) else filters
      | _ \<Rightarrow> filters)"

definition query_filters :: "env \<Rightarrow> request \<Rightarrow> jsobj" where
  "query_filters ev req =
     convert_tags (convert_date ev ''endDate'' (convert_date ev ''startDate'' (fields_obj (req_query req))))"

definition get_expenses_second :: handler where
  "get_expenses_second ev req st =
     (case req_user_userId req of
        None \<Rightarrow> (status_json 500 ''Failed to fetch expenses'', st)
      | Some userId \<Rightarrow>
          (json (ExpenseList (getExpenses userId (query_filters ev req) (expenses st))), st))"


text \<open>Lines 199-214: \<^verbatim>\<open>GET /api/expenses/:id\<close>, the one expense handler with a 404.\<close>

definition get_expense_by_id :: handler where
  "get_expense_by_id ev req st =
     (case req_user_userId req of
        None \<Rightarrow> (status_json 500 ''Failed to fetch expense'', st)
      | Some userId \<Rightarrow>
          (case getExpenseById (param_id req) userId (expenses st) of
             None \<Rightarrow> (status_json 404 ''Expense not found'', st)
           | Some expense \<Rightarrow> (json (ExpenseBody (Some expense)), st)))"

text \<open>Lines 216-227: \<^verbatim>\<open>PATCH /api/expenses/:id\<close>.\<close>

definition patch_expense :: handler where
  "patch_expense ev req st =
     (case req_user_userId req of
        None \<Rightarrow> (status_json 500 ''Failed to update expense'', st)
      | Some userId \<Rightarrow>
          (case updateExpense ev (param_id req) userId (fields_obj (req_body req)) (expenses st) of
             Inl err \<Rightarrow> (status_json 500 ''Failed to update expense'', st)
           | Inr (expense, es') \<Rightarrow>
               (json (ExpenseBody (Some expense)), st\<lparr>expenses := es'\<rparr>)))"

section \<open>Route registration and dispatch\<close>

text \<open>
  index.ts runs \<^verbatim>\<open>setupAuth(app)\<close> and then \<^verbatim>\<open>registerRoutes(app)\<close>; Express tries the
  routes in registration order and runs the first whose method and path match. Every handler
  here ends the response and none calls \<^verbatim>\<open>next()\<close>, so a later registration of the same
  method and path is never reached. The routes of other paths (budgets, goals, categories,
  dashboard, AI, currency, upload, notifications, user data) and \<^verbatim>\<open>PATCH /api/auth/user\<close>
  match none of the requests below and are left out; \<open>None\<close> is a request that none of the
  listed routes matches. Paths are compared segment by segment; Express also accepts another
  letter case and a trailing slash, which select the same handlers. \<^verbatim>\<open>upload.single\<close>, which stands between \<^verbatim>\<open>isAuthenticated\<close> and the
  handler of the first \<^verbatim>\<open>POST\<close> and of \<^verbatim>\<open>PUT\<close>, has run when the handler starts:
  \<open>req_file\<close> is the name of the stored file, if one was uploaded.
\<close>

fun match_path :: "string list \<Rightarrow> string list \<Rightarrow> fields option" where
  "match_path [] [] = Some []"
| "match_path (p # ps) (s # ss) =
     (case p of
        [] \<Rightarrow> (if s = [] then match_path ps ss else None)
      | c # name \<Rightarrow>
          if c = CHR '':'' then map_option (\<lambda>m. (name, s) # m) (match_path ps ss)
          else if p = s then match_path ps ss else None)"
| "match_path [] (s # ss) = None"
| "match_path (p # ps) [] = None"

definition routes :: "(http_method \<times> string list \<times> handler) list" where
  "routes =
     [(POST, [''api'', ''register''], register),
      (POST, [''api'', ''login''], login),
      (GET, [''api'', ''auth'', ''user''], guarded auth_user),
      (POST, [''api'', ''logout''], logout),
      (POST, [''api'', ''expenses''], guarded post_expenses_first),
      (GET, [''api'', ''expenses''], guarded get_expenses_first),
      (PUT, [''api'', ''expenses'', '':id''], guarded put_expense),
      (DELETE, [''api'', ''expenses'', '':id''], guarded delete_expense),
      (GET, [''api'', ''auth'', ''user''], guarded auth_user_storage),
      (POST, [''api'', ''expenses''], guarded post_expenses_second),
      (GET, [''api'', ''expenses''], guarded get_expenses_second),
      (GET, [''api'', ''expenses'', '':id''], guarded get_expense_by_id),
      (PATCH, [''api'', ''expenses'', '':id''], guarded patch_expense),
      (DELETE, [''api'', ''expenses'', '':id''], guarded delete_expense)]"

fun dispatch_routes ::
  "(http_method \<times> string list \<times> handler) list \<Rightarrow> env \<Rightarrow> request \<Rightarrow> store \<Rightarrow> (response \<times> store) option" where
  "dispatch_routes [] ev req st = None"
| "dispatch_routes ((m, pat, h) # rs) ev req st =
     (if m = req_method req
      then (case match_path pat (req_path req) of
              Some ps \<Rightarrow> Some (h ev (req\<lparr>req_params := ps\<rparr>) st)
            | None \<Rightarrow> dispatch_routes rs ev req st)
      else dispatch_routes rs ev req st)"

definition dispatch :: "env \<Rightarrow> request \<Rightarrow> store \<Rightarrow> (response \<times> store) option" where
  "dispatch ev req st = dispatch_routes routes ev req st"

section \<open>Example data\<close>

text \<open>
  Two users, three expenses, and collaborators chosen for the examples: tokens
  \<^verbatim>\<open>tok-u1\<close>, \<^verbatim>\<open>tok-u2\<close> verify for Alice and Bob, \<^verbatim>\<open>tok-u3\<close> verifies for a user id with
  no row, \<^verbatim>\<open>tok-old\<close> is expired, every other token fails the signature check. The schema
  accepts every object; the insert refuses data that leaves one of the NOT NULL columns of
  \<^verbatim>\<open>expenses\<close> without a value (\<^verbatim>\<open>userId\<close>, \<^verbatim>\<open>amount\<close>, \<^verbatim>\<open>type\<close>, \<^verbatim>\<open>description\<close>,
  \<^verbatim>\<open>category\<close>, \<^verbatim>\<open>date\<close>); the AI service answers \<^verbatim>\<open>transport\<close>. Carol is a user whose
  \<^verbatim>\<open>password\<close> column is NULL, for whom \<^verbatim>\<open>bcrypt.compare\<close> throws.
\<close>

definition alice :: user_row where
  "alice = \<lparr>u_id = ''u1'', u_email = Some ''alice@example.com'', u_password = Some ''hash:wonderland'',
             u_firstName = Some ''Alice'', u_lastName = Some ''Liddell'', u_profileImageUrl = None,
             u_createdAt = Some 1, u_updatedAt = Some 1, u_language = Some ''en'',
             u_currency = Some ''USD'', u_timezone = Some ''UTC'', u_theme = Some ''light'',
             u_onboardingCompleted = Some False\<rparr>"

definition bob :: user_row where
  "bob = \<lparr>u_id = ''u2'', u_email = Some ''bob@example.com'', u_password = Some ''hash:builder'',
           u_firstName = Some ''Bob'', u_lastName = Some ''Builder'', u_profileImageUrl = None,
           u_createdAt = Some 2, u_updatedAt = Some 2, u_language = Some ''en'',
           u_currency = Some ''USD'', u_timezone = Some ''UTC'', u_theme = Some ''light'',
           u_onboardingCompleted = Some False\<rparr>"

definition carol :: user_row where
  "carol = \<lparr>u_id = ''u4'', u_email = Some ''carol@example.com'', u_password = None,
             u_firstName = Some ''Carol'', u_lastName = Some ''Danvers'', u_profileImageUrl = None,
             u_createdAt = Some 3, u_updatedAt = Some 3, u_language = Some ''en'',
             u_currency = Some ''USD'', u_timezone = Some ''UTC'', u_theme = Some ''light'',
             u_onboardingCompleted = Some False\<rparr>"

definition mk_expense :: "string \<Rightarrow> string \<Rightarrow> string \<Rightarrow> string \<Rightarrow> string list option \<Rightarrow> expense" where
  "mk_expense eid uid descr cat ts =
     \<lparr>e_id = eid, e_userId = uid, e_amount = ''10.00'', e_type = ''expense'',
      e_description = descr, e_category = cat, e_date = 100, e_location = None,
      e_latitude = None, e_longitude = None, e_mood = None, e_rating = None,
      e_receiptUrl = None, e_tags = ts, e_createdAt = Some 100, e_updatedAt = Some 100\<rparr>"

definition lunch :: expense where
  "lunch = mk_expense ''e1'' ''u1'' ''Lunch'' ''food'' None"

definition taxi :: expense where
  "taxi = mk_expense ''e2'' ''u1'' ''Taxi'' ''travel'' None"

definition rent :: expense where
  "rent = mk_expense ''e3'' ''u2'' ''Rent'' ''housing'' None"

definition store0 :: store where
  "store0 = \<lparr>users = [alice, bob], expenses = [lunch, taxi, rent]\<rparr>"

definition store1 :: store where
  "store1 = \<lparr>users = [alice, bob, carol], expenses = [lunch, taxi, rent]\<rparr>"

definition verify0 :: "string \<Rightarrow> jwt_error + string" where
  "verify0 t =
     (if t = ''tok-u1'' then Inr ''u1''
      else if t = ''tok-u2'' then Inr ''u2''
      else if t = ''tok-u3'' then Inr ''u3''
      else if t = ''tok-old'' then Inl TokenExpiredError
      else Inl JsonWebTokenError)"

definition compare0 :: "string \<Rightarrow> string option \<Rightarrow> bool option" where
  "compare0 pw h = (case h of None \<Rightarrow> None | Some hh \<Rightarrow> Some (hh = ''hash:'' @ pw))"

definition date0 :: "string \<Rightarrow> int option" where
  "date0 s = (if s = ''1970-01-01'' then Some 0 else None)"

definition text0 :: "jsval \<Rightarrow> string option" where
  "text0 v = (case v of JStr s \<Rightarrow> Some s | _ \<Rightarrow> None)"

definition amount0 :: "jsval \<Rightarrow> string option" where
  "amount0 v =
     (case v of
        JStr a \<Rightarrow> Some a
      | JNum n \<Rightarrow> Some (if n = 2350 then ''23.50'' else ''0.00'')
      | _ \<Rightarrow> None)"

definition timestamp0 :: "jsval \<Rightarrow> int option" where
  "timestamp0 v = (case v of JDate d \<Rightarrow> d | JStr s \<Rightarrow> date0 s | _ \<Rightarrow> None)"

definition insert_row0 :: "jsobj \<Rightarrow> expense option" where
  "insert_row0 d =
     (case text0 (js_get d ''userId'') of None \<Rightarrow> None | Some uid \<Rightarrow>
      (case amount0 (js_get d ''amount'') of None \<Rightarrow> None | Some amt \<Rightarrow>
      (case text0 (js_get d ''type'') of None \<Rightarrow> None | Some ty \<Rightarrow>
      (case text0 (js_get d ''description'') of None \<Rightarrow> None | Some descr \<Rightarrow>
      (case text0 (js_get d ''category'') of None \<Rightarrow> None | Some cat \<Rightarrow>
      (case timestamp0 (js_get d ''date'') of None \<Rightarrow> None | Some dt \<Rightarrow>
         Some \<lparr>e_id = ''e9'', e_userId = uid, e_amount = amt, e_type = ty,
               e_description = descr, e_category = cat, e_date = dt,
               e_location = text0 (js_get d ''location''),
               e_latitude = None, e_longitude = None, e_mood = None, e_rating = None,
               e_receiptUrl = text0 (js_get d ''receiptUrl''),
               e_tags = (case js_get d ''tags'' of JList ts \<Rightarrow> Some ts | _ \<Rightarrow> None),
               e_createdAt = Some 1000, e_updatedAt = Some 1000\<rparr>))))))"

definition updates0 :: "jsobj \<Rightarrow> expense \<Rightarrow> expense" where
  "updates0 upd e =
     (case js_get upd ''category'' of JStr c \<Rightarrow> e\<lparr>e_category := c\<rparr> | _ \<Rightarrow> e)"

definition env0 :: env where
  "env0 =
     \<lparr>jwt_sign = (\<lambda>uid expiresIn. ''tok-'' @ uid),
      jwt_verify = verify0,
      bcrypt_hash = (\<lambda>pw. ''hash:'' @ pw),
      bcrypt_compare = compare0,
      randomUUID = ''u9'',
      now = 1000,
      insertExpenseSchema_parse = (\<lambda>d. Some d),
      analyzeExpense = (\<lambda>descr amount location.
                          Some \<lparr>suggestedCategory = ''transport'', tags = [''travel'']\<rparr>),
      js_parseFloat = (\<lambda>s. if s = Some ''23.50'' then JNum 2350 else JUndefined),
      js_Number = (\<lambda>v. v),
      js_Date = date0,
      insert_expense_row = insert_row0,
      apply_expense_updates = updates0\<rparr>"

definition req0 :: request where
  "req0 =
     \<lparr>req_method = GET, req_path = [], req_authorization = None, req_body = [],
      req_query = [], req_params = [], req_file = None, req_userId = JUndefined,
      req_user = None\<rparr>"

section \<open>Lookups\<close>

lemma take1_filter_Cons: "take 1 (filter P xs) = y # ys \<Longrightarrow> P y \<and> y \<in> set xs \<and> ys = [] \<and> find P xs = Some y"
  by (induction xs) (auto split: if_splits)

lemma select_user_by_id_Nil: "select_user_by_id uid st = [] \<longleftrightarrow> \<not> list_ex (\<lambda>u. u_id u = uid) (users st)"
  by (simp add: select_user_by_id_def list_ex_iff filter_empty_conv)

lemma select_user_by_id_Cons:
  "select_user_by_id uid st = u # rest \<Longrightarrow> u_id u = uid \<and> u \<in> set (users st) \<and> rest = []"
  unfolding select_user_by_id_def by (drule take1_filter_Cons) simp

lemma isAuthenticated_Inl:
  "isAuthenticated ev req st = Inl resp \<Longrightarrow>
     resp = status_json 401 ''No token provided'' \<or> resp = status_json 401 ''Invalid token''
     \<or> resp = status_json 401 ''User not found''"
  by (auto simp: isAuthenticated_def split: option.splits if_splits sum.splits list.splits)

lemma isAuthenticated_Inr:
  "isAuthenticated ev req st = Inr req' \<Longrightarrow>
     \<exists>hdr u. req_authorization req = Some hdr \<and> startsWith hdr ''Bearer ''
        \<and> jwt_verify ev (drop 7 hdr) = Inr (u_id u) \<and> u \<in> set (users st)
        \<and> select_user_by_id (u_id u) st = [u]
        \<and> req' = req\<lparr>req_userId := JStr (u_id u), req_user := Some (user_obj u)\<rparr>"
proof -
  assume ok: "isAuthenticated ev req st = Inr req'"
  then obtain hdr uid u rest where h: "req_authorization req = Some hdr" "startsWith hdr ''Bearer ''"
      "jwt_verify ev (drop 7 hdr) = Inr uid" "select_user_by_id uid st = u # rest"
      "req' = req\<lparr>req_userId := JStr uid, req_user := Some (user_obj u)\<rparr>"
    by (auto simp: isAuthenticated_def split: option.splits if_splits sum.splits list.splits)
  from select_user_by_id_Cons[OF h(4)] have "u_id u = uid" "u \<in> set (users st)" "rest = []"
    by simp_all
  with h show ?thesis by auto
qed

section \<open>The authentication gate\<close>

text \<open>
  C2. On a route guarded by \<^verbatim>\<open>isAuthenticated\<close>: when the Authorization header is absent or
  does not begin with \<^verbatim>\<open>Bearer \<close>, or \<^verbatim>\<open>jwt.verify\<close> throws (bad signature, expired token, any
  other of its errors), or no user row has the decoded id, the response is a 401 and the
  outcome is that response with the store untouched whatever the downstream handler \<open>h\<close>
  is: it is not run. When the middleware calls \<^verbatim>\<open>next()\<close>, every check has passed, and the
  outcome is the handler's, run on the request the middleware prepared.
\<close>

theorem isAuthenticated_gate:
  "((req_authorization req = None
      \<or> (\<exists>hdr. req_authorization req = Some hdr \<and> \<not> startsWith hdr ''Bearer '')
      \<or> (\<exists>hdr e. req_authorization req = Some hdr \<and> jwt_verify ev (drop 7 hdr) = Inl e)
      \<or> (\<exists>hdr uid. req_authorization req = Some hdr \<and> jwt_verify ev (drop 7 hdr) = Inr uid
            \<and> \<not> list_ex (\<lambda>u. u_id u = uid) (users st)))
     \<longrightarrow> (\<exists>msg. isAuthenticated ev req st = Inl (status_json 401 msg)
            \<and> guarded h ev req st = (status_json 401 msg, st)))
   \<and> (\<forall>req'. isAuthenticated ev req st = Inr req' \<longrightarrow>
         (\<exists>hdr uid. req_authorization req = Some hdr \<and> startsWith hdr ''Bearer ''
             \<and> jwt_verify ev (drop 7 hdr) = Inr uid \<and> list_ex (\<lambda>u. u_id u = uid) (users st))
         \<and> guarded h ev req st = h ev req' st)"
proof (intro conjI impI allI)
  assume fails: "req_authorization req = None
      \<or> (\<exists>hdr. req_authorization req = Some hdr \<and> \<not> startsWith hdr ''Bearer '')
      \<or> (\<exists>hdr e. req_authorization req = Some hdr \<and> jwt_verify ev (drop 7 hdr) = Inl e)
      \<or> (\<exists>hdr uid. req_authorization req = Some hdr \<and> jwt_verify ev (drop 7 hdr) = Inr uid
            \<and> \<not> list_ex (\<lambda>u. u_id u = uid) (users st))"
  have "\<exists>msg. isAuthenticated ev req st = Inl (status_json 401 msg)"
    using fails
    by (auto simp: isAuthenticated_def select_user_by_id_Nil[symmetric]
        split: option.splits sum.splits list.splits)
  then show "\<exists>msg. isAuthenticated ev req st = Inl (status_json 401 msg)
            \<and> guarded h ev req st = (status_json 401 msg, st)"
    by (auto simp: guarded_def)
next
  fix req'
  assume ok: "isAuthenticated ev req st = Inr req'"
  from isAuthenticated_Inr[OF ok]
  show "\<exists>hdr uid. req_authorization req = Some hdr \<and> startsWith hdr ''Bearer ''
             \<and> jwt_verify ev (drop 7 hdr) = Inr uid \<and> list_ex (\<lambda>u. u_id u = uid) (users st)"
    by (auto simp: list_ex_iff)
  show "guarded h ev req st = h ev req' st"
    using ok by (simp add: guarded_def)
qed

theorem isAuthenticated_gate_witness:
  "isAuthenticated env0 (req0\<lparr>req_authorization := Some ''Bearer tok-old''\<rparr>) store0
     = Inl (status_json 401 ''Invalid token'')
   \<and> guarded get_expenses_first env0 (req0\<lparr>req_authorization := Some ''Bearer tok-old''\<rparr>) store0
     = (status_json 401 ''Invalid token'', store0)
   \<and> isAuthenticated env0 (req0\<lparr>req_authorization := Some ''Bearer tok-u1''\<rparr>) store0
     = Inr (req0\<lparr>req_authorization := Some ''Bearer tok-u1'', req_userId := JStr ''u1'',
                  req_user := Some (user_obj alice)\<rparr>)
   \<and> guarded logout env0 (req0\<lparr>req_authorization := Some ''Bearer tok-u1''\<rparr>) store0
     = logout env0 (req0\<lparr>req_authorization := Some ''Bearer tok-u1'', req_userId := JStr ''u1'',
                  req_user := Some (user_obj alice)\<rparr>) store0"
proof -
  have expired: "jwt_verify env0 (drop 7 ''Bearer tok-old'') = Inl TokenExpiredError"
    by (simp add: env0_def verify0_def)
  have a: "isAuthenticated env0 (req0\<lparr>req_authorization := Some ''Bearer tok-u1''\<rparr>) store0
     = Inr (req0\<lparr>req_authorization := Some ''Bearer tok-u1'', req_userId := JStr ''u1'',
                  req_user := Some (user_obj alice)\<rparr>)"
    by (simp add: isAuthenticated_def select_user_by_id_def env0_def req0_def store0_def
        alice_def bob_def verify0_def)
  show ?thesis
    using isAuthenticated_gate[of "req0\<lparr>req_authorization := Some ''Bearer tok-old''\<rparr>" env0 store0 get_expenses_first]
      isAuthenticated_gate[of "req0\<lparr>req_authorization := Some ''Bearer tok-u1''\<rparr>" env0 store0 logout]
      expired a
    by (auto simp: status_json_def isAuthenticated_def)
qed

text \<open>
  C10. When \<^verbatim>\<open>isAuthenticated\<close> succeeds it has set \<^verbatim>\<open>req.userId\<close> to the decoded user id and
  \<^verbatim>\<open>req.user\<close> to the whole row of that user: the row carries the stored password hash, its
  user id is the property \<^verbatim>\<open>id\<close>, and it has no property \<^verbatim>\<open>userId\<close>. The resource handlers
  read \<^verbatim>\<open>req.user.userId\<close> (\<open>req_user_userId\<close>), which on that request is \<^verbatim>\<open>undefined\<close>.
\<close>

theorem isAuthenticated_attaches:
  assumes "isAuthenticated ev req st = Inr req'"
  shows "\<exists>hdr u. req_authorization req = Some hdr \<and> jwt_verify ev (drop 7 hdr) = Inr (u_id u)
           \<and> u \<in> set (users st)
           \<and> req_userId req' = JStr (u_id u)
           \<and> req_user req' = Some (user_obj u)
           \<and> js_get (user_obj u) ''password'' = opt_str (u_password u)
           \<and> js_get (user_obj u) ''id'' = JStr (u_id u)
           \<and> map_of (user_obj u) ''userId'' = None
           \<and> req_user_userId req' = Some JUndefined"
proof -
  from isAuthenticated_Inr[OF assms] obtain hdr u where
    h: "req_authorization req = Some hdr" "jwt_verify ev (drop 7 hdr) = Inr (u_id u)"
       "u \<in> set (users st)"
       "req' = req\<lparr>req_userId := JStr (u_id u), req_user := Some (user_obj u)\<rparr>"
    by blast
  have p: "js_get (user_obj u) ''password'' = opt_str (u_password u)"
    and i: "js_get (user_obj u) ''id'' = JStr (u_id u)"
    and n: "map_of (user_obj u) ''userId'' = None"
    by (simp_all add: js_get_def user_obj_def)
  have "req_user_userId req' = Some JUndefined"
    using h(4) n by (simp add: req_user_userId_def js_get_def)
  with h p i n show ?thesis by auto
qed

theorem isAuthenticated_attaches_witness:
  "isAuthenticated env0 (req0\<lparr>req_authorization := Some ''Bearer tok-u1''\<rparr>) store0
     = Inr (req0\<lparr>req_authorization := Some ''Bearer tok-u1'', req_userId := JStr ''u1'',
                  req_user := Some (user_obj alice)\<rparr>)
   \<and> js_get (user_obj alice) ''password'' = JStr ''hash:wonderland''
   \<and> js_get (user_obj alice) ''id'' = JStr ''u1''
   \<and> js_get (user_obj alice) ''userId'' = JUndefined
   \<and> req_user_userId (req0\<lparr>req_authorization := Some ''Bearer tok-u1'', req_userId := JStr ''u1'',
                  req_user := Some (user_obj alice)\<rparr>) = Some JUndefined"
proof -
  have a: "isAuthenticated env0 (req0\<lparr>req_authorization := Some ''Bearer tok-u1''\<rparr>) store0
     = Inr (req0\<lparr>req_authorization := Some ''Bearer tok-u1'', req_userId := JStr ''u1'',
                  req_user := Some (user_obj alice)\<rparr>)"
    by (simp add: isAuthenticated_def select_user_by_id_def env0_def req0_def store0_def
        alice_def bob_def verify0_def)
  have b: "js_get (user_obj alice) ''password'' = JStr ''hash:wonderland''"
    "js_get (user_obj alice) ''id'' = JStr ''u1''"
    "js_get (user_obj alice) ''userId'' = JUndefined"
    by (simp_all add: js_get_def user_obj_def alice_def)
  show ?thesis
    using isAuthenticated_attaches[OF a] a b by auto
qed

section \<open>Registration and login\<close>

lemma select_user_by_email_Nil:
  "select_user_by_email email st = [] \<longleftrightarrow> \<not> list_ex (\<lambda>u. u_email u = Some email) (users st)"
  by (simp add: select_user_by_email_def list_ex_iff filter_empty_conv)

lemma select_user_by_email_Cons:
  "select_user_by_email email st = u # rest \<Longrightarrow>
     u_email u = Some email \<and> u \<in> set (users st) \<and> rest = []
     \<and> find (\<lambda>u. u_email u = Some email) (users st) = Some u"
  unfolding select_user_by_email_def by (drule take1_filter_Cons) simp

lemma take1_filter_find: "find P xs = Some y \<Longrightarrow> take 1 (filter P xs) = [y]"
  by (induction xs) (auto split: if_splits)

lemma select_user_by_email_find:
  "find (\<lambda>u. u_email u = Some email) (users st) = Some u \<Longrightarrow> select_user_by_email email st = [u]"
  unfolding select_user_by_email_def by (rule take1_filter_find)

text \<open>
  C5. A \<^verbatim>\<open>POST /api/register\<close> whose email is already in the users table leaves the store as
  it was (no field of the existing record changes, no row is inserted) and answers 400; when
  the request carries all four required fields, as a repeated registration does, the answer
  is the conflict message \<^verbatim>\<open>User already exists\<close>.
\<close>

theorem register_duplicate_email:
  assumes "field (req_body req) ''email'' = Some email"
      and "list_ex (\<lambda>u. u_email u = Some email) (users st)"
  shows "snd (register ev req st) = st
         \<and> status (fst (register ev req st)) = 400
         \<and> (email \<noteq> [] \<and> truthy_field (field (req_body req) ''password'')
              \<and> truthy_field (field (req_body req) ''firstName'')
              \<and> truthy_field (field (req_body req) ''lastName'')
            \<longrightarrow> fst (register ev req st) = status_json 400 ''User already exists'')"
proof -
  from assms(2) have "select_user_by_email email st \<noteq> []"
    by (simp add: select_user_by_email_Nil)
  then have "length (select_user_by_email email st) > 0" by simp
  with assms(1) show ?thesis
    by (simp add: register_def Let_def status_json_def)
qed

theorem register_duplicate_email_witness:
  "field (req_body (req0\<lparr>req_body := [(''email'', ''alice@example.com''), (''password'', ''rabbit''),
                                      (''firstName'', ''Alice''), (''lastName'', ''Again'')]\<rparr>)) ''email''
     = Some ''alice@example.com''
   \<and> list_ex (\<lambda>u. u_email u = Some ''alice@example.com'') (users store0)
   \<and> register env0 (req0\<lparr>req_body := [(''email'', ''alice@example.com''), (''password'', ''rabbit''),
                                      (''firstName'', ''Alice''), (''lastName'', ''Again'')]\<rparr>) store0
     = (status_json 400 ''User already exists'', store0)"
proof -
  have a: "field (req_body (req0\<lparr>req_body := [(''email'', ''alice@example.com''), (''password'', ''rabbit''),
                                      (''firstName'', ''Alice''), (''lastName'', ''Again'')]\<rparr>)) ''email''
     = Some ''alice@example.com''"
    by (simp add: field_def)
  have b: "list_ex (\<lambda>u. u_email u = Some ''alice@example.com'') (users store0)"
    by (simp add: store0_def alice_def)
  show ?thesis
    using register_duplicate_email[OF a b, of env0] a b
    by (simp add: field_def prod_eq_iff)
qed

text \<open>
  Where \<^verbatim>\<open>bcrypt.compare\<close> returns, the two failures get the same response: an email that no
  user has and a known email whose password is rejected are both answered with status 401 and
  the message \<^verbatim>\<open>Invalid credentials\<close>.
\<close>

lemma login_no_enumeration:
  assumes unknown: "field (req_body req1) ''email'' = Some email1" "email1 \<noteq> []"
                   "truthy_field (field (req_body req1) ''password'')"
                   "\<not> list_ex (\<lambda>u. u_email u = Some email1) (users st)"
      and wrong: "field (req_body req2) ''email'' = Some email2" "email2 \<noteq> []"
                 "field (req_body req2) ''password'' = Some password2" "password2 \<noteq> []"
                 "find (\<lambda>u. u_email u = Some email2) (users st) = Some user"
                 "bcrypt_compare ev password2 (u_password user) = Some False"
  shows "login ev req1 st = (status_json 401 ''Invalid credentials'', st)
         \<and> login ev req2 st = (status_json 401 ''Invalid credentials'', st)
         \<and> fst (login ev req1 st) = fst (login ev req2 st)"
proof -
  from unknown(4) have n: "select_user_by_email email1 st = []"
    by (simp add: select_user_by_email_Nil)
  have r1: "login ev req1 st = (status_json 401 ''Invalid credentials'', st)"
    using unknown(1,2,3) n by (simp add: login_def Let_def)
  from select_user_by_email_find[OF wrong(5)] have k: "select_user_by_email email2 st = [user]" .
  have r2: "login ev req2 st = (status_json 401 ''Invalid credentials'', st)"
    using wrong(1,2,3,4,6) k by (simp add: login_def Let_def)
  from r1 r2 show ?thesis by simp
qed

lemma login_no_enumeration_example:
  "login env0 (req0\<lparr>req_body := [(''email'', ''mallory@example.com''), (''password'', ''guess'')]\<rparr>) store0
     = (status_json 401 ''Invalid credentials'', store0)
   \<and> login env0 (req0\<lparr>req_body := [(''email'', ''alice@example.com''), (''password'', ''guess'')]\<rparr>) store0
     = (status_json 401 ''Invalid credentials'', store0)
   \<and> find (\<lambda>u. u_email u = Some ''alice@example.com'') (users store0) = Some alice
   \<and> bcrypt_compare env0 ''guess'' (u_password alice) = Some False"
proof -
  have f: "find (\<lambda>u. u_email u = Some ''alice@example.com'') (users store0) = Some alice"
    by (simp add: store0_def alice_def)
  have c: "bcrypt_compare env0 ''guess'' (u_password alice) = Some False"
    by (simp add: env0_def compare0_def alice_def)
  have u: "\<not> list_ex (\<lambda>u. u_email u = Some ''mallory@example.com'') (users store0)"
    by (simp add: store0_def alice_def bob_def)
  show ?thesis
    using login_no_enumeration[of "req0\<lparr>req_body := [(''email'', ''mallory@example.com''), (''password'', ''guess'')]\<rparr>"
        "''mallory@example.com''" store0
        "req0\<lparr>req_body := [(''email'', ''alice@example.com''), (''password'', ''guess'')]\<rparr>"
        "''alice@example.com''" "''guess''" alice env0] f c u
    by (simp add: field_def)
qed

text \<open>
  C6. \<^verbatim>\<open>bcrypt.compare\<close> runs inside the handler's \<^verbatim>\<open>try\<close>. Carol's row has no password
  hash, the comparison throws, and the handler's \<^verbatim>\<open>catch\<close> answers 500 with
  \<^verbatim>\<open>Internal server error\<close>; the same attempt on an email that no user has is answered 401
  with \<^verbatim>\<open>Invalid credentials\<close>. The two failed logins differ in status and in message.
\<close>

theorem login_enumeration_signal:
  "login env0 (req0\<lparr>req_body := [(''email'', ''carol@example.com''), (''password'', ''guess'')]\<rparr>) store1
     = (status_json 500 ''Internal server error'', store1)
   \<and> login env0 (req0\<lparr>req_body := [(''email'', ''mallory@example.com''), (''password'', ''guess'')]\<rparr>) store1
     = (status_json 401 ''Invalid credentials'', store1)
   \<and> find (\<lambda>u. u_email u = Some ''carol@example.com'') (users store1) = Some carol
   \<and> find (\<lambda>u. u_email u = Some ''mallory@example.com'') (users store1) = None
   \<and> u_password carol = None
   \<and> bcrypt_compare env0 ''guess'' None = None"
  by (simp add: login_def Let_def field_def select_user_by_email_def env0_def compare0_def
      req0_def store1_def alice_def bob_def carol_def)

theorem login_enumeration_signal_witness:
  "status (fst (login env0 (req0\<lparr>req_body := [(''email'', ''carol@example.com''),
                                                (''password'', ''guess'')]\<rparr>) store1)) = 500
   \<and> status (fst (login env0 (req0\<lparr>req_body := [(''email'', ''mallory@example.com''),
                                                  (''password'', ''guess'')]\<rparr>) store1)) = 401
   \<and> fst (login env0 (req0\<lparr>req_body := [(''email'', ''carol@example.com''),
                                          (''password'', ''guess'')]\<rparr>) store1)
       \<noteq> fst (login env0 (req0\<lparr>req_body := [(''email'', ''mallory@example.com''),
                                              (''password'', ''guess'')]\<rparr>) store1)"
  using login_enumeration_signal by (simp add: status_json_def)

section \<open>Which handler serves a request\<close>

lemma dispatch_get_auth_user:
  "dispatch ev (req\<lparr>req_method := GET, req_path := [''api'', ''auth'', ''user'']\<rparr>) st
     = Some (guarded auth_user ev
               (req\<lparr>req_method := GET, req_path := [''api'', ''auth'', ''user''], req_params := []\<rparr>) st)"
  by (simp add: dispatch_def routes_def)

lemma dispatch_get_expenses:
  "dispatch ev (req\<lparr>req_method := GET, req_path := [''api'', ''expenses'']\<rparr>) st
     = Some (guarded get_expenses_first ev
               (req\<lparr>req_method := GET, req_path := [''api'', ''expenses''], req_params := []\<rparr>) st)"
  by (simp add: dispatch_def routes_def)

lemma dispatch_post_expenses:
  "dispatch ev (req\<lparr>req_method := POST, req_path := [''api'', ''expenses'']\<rparr>) st
     = Some (guarded post_expenses_first ev
               (req\<lparr>req_method := POST, req_path := [''api'', ''expenses''], req_params := []\<rparr>) st)"
  by (simp add: dispatch_def routes_def)

lemma dispatch_patch_expense:
  "dispatch ev (req\<lparr>req_method := PATCH, req_path := [''api'', ''expenses'', eid]\<rparr>) st
     = Some (guarded patch_expense ev
               (req\<lparr>req_method := PATCH, req_path := [''api'', ''expenses'', eid],
                    req_params := [(''id'', eid)]\<rparr>) st)"
  by (simp add: dispatch_def routes_def)

lemma dispatch_delete_expense:
  "dispatch ev (req\<lparr>req_method := DELETE, req_path := [''api'', ''expenses'', eid]\<rparr>) st
     = Some (guarded delete_expense ev
               (req\<lparr>req_method := DELETE, req_path := [''api'', ''expenses'', eid],
                    req_params := [(''id'', eid)]\<rparr>) st)"
  by (simp add: dispatch_def routes_def)

section \<open>GET /api/auth/user\<close>

lemma auth_user_after_gate:
  assumes "isAuthenticated ev req st = Inr req'"
  shows "status (fst (auth_user ev req' st)) = 200 \<and> snd (auth_user ev req' st) = st"
proof -
  from isAuthenticated_Inr[OF assms] obtain hdr u where
    h: "select_user_by_id (u_id u) st = [u]"
       "req' = req\<lparr>req_userId := JStr (u_id u), req_user := Some (user_obj u)\<rparr>"
    by blast
  then show ?thesis by (simp add: auth_user_def json_def)
qed

lemma guarded_auth_user_status:
  "snd (guarded auth_user ev req st) = st
   \<and> (case isAuthenticated ev req st of
         Inl r \<Rightarrow> status (fst (guarded auth_user ev req st)) = 401
       | Inr r \<Rightarrow> status (fst (guarded auth_user ev req st)) = 200)"
proof (cases "isAuthenticated ev req st")
  case (Inl r)
  with isAuthenticated_Inl[OF Inl] show ?thesis
    by (auto simp: guarded_def status_json_def)
next
  case (Inr r)
  with auth_user_after_gate[OF Inr] show ?thesis
    by (simp add: guarded_def)
qed

text \<open>
  The handler's own 404 needs a users table, at the time of its lookup, that no longer holds
  the row the middleware found.
\<close>

lemma auth_user_404_iff:
  assumes "isAuthenticated ev req st = Inr req'"
  shows "status (fst (auth_user ev req' st2)) = 404
           \<longleftrightarrow> \<not> list_ex (\<lambda>u. JStr (u_id u) = req_userId req') (users st2)"
proof -
  from isAuthenticated_Inr[OF assms] obtain u where
    r: "req' = req\<lparr>req_userId := JStr (u_id u), req_user := Some (user_obj u)\<rparr>"
    by blast
  show ?thesis
  proof (cases "select_user_by_id (u_id u) st2")
    case Nil
    moreover from Nil have "\<not> list_ex (\<lambda>x. u_id x = u_id u) (users st2)"
      by (simp add: select_user_by_id_Nil)
    ultimately show ?thesis using r
      by (simp add: auth_user_def status_json_def)
  next
    case (Cons v vs)
    from select_user_by_id_Cons[OF Cons] have "list_ex (\<lambda>x. u_id x = u_id u) (users st2)"
      by (auto simp: list_ex_iff)
    with Cons r show ?thesis
      by (simp add: auth_user_def json_def)
  qed
qed

text \<open>
  C9, as amended. \<^verbatim>\<open>GET /api/auth/user\<close> is served by the handler of localAuth behind
  \<^verbatim>\<open>isAuthenticated\<close>. The response is 401 when the bearer token is absent or invalid, and
  also 401 when the token is valid and no user row has the id it names: the middleware
  answers \<^verbatim>\<open>User not found\<close> before the handler runs. With the middleware and the handler
  reading the same users table the response is never 404.
\<close>

theorem get_auth_user_status:
  "\<exists>resp. dispatch ev (req\<lparr>req_method := GET, req_path := [''api'', ''auth'', ''user'']\<rparr>) st = Some (resp, st)
      \<and> status resp \<noteq> 404
      \<and> (req_authorization req = None
           \<or> (\<exists>hdr. req_authorization req = Some hdr \<and> \<not> startsWith hdr ''Bearer '')
           \<or> (\<exists>hdr e. req_authorization req = Some hdr \<and> jwt_verify ev (drop 7 hdr) = Inl e)
           \<or> (\<exists>hdr uid. req_authorization req = Some hdr \<and> jwt_verify ev (drop 7 hdr) = Inr uid
                 \<and> \<not> list_ex (\<lambda>u. u_id u = uid) (users st))
          \<longrightarrow> status resp = 401)"
proof -
  let ?r = "req\<lparr>req_method := GET, req_path := [''api'', ''auth'', ''user''], req_params := []\<rparr>"
  let ?out = "guarded auth_user ev ?r st"
  have d: "dispatch ev (req\<lparr>req_method := GET, req_path := [''api'', ''auth'', ''user'']\<rparr>) st = Some ?out"
    by (rule dispatch_get_auth_user)
  have s: "snd ?out = st" using guarded_auth_user_status[of ev ?r st] by simp
  have n: "status (fst ?out) \<noteq> 404"
    using guarded_auth_user_status[of ev ?r st] by (cases "isAuthenticated ev ?r st") simp_all
  have f: "status (fst ?out) = 401"
    if "req_authorization req = None
           \<or> (\<exists>hdr. req_authorization req = Some hdr \<and> \<not> startsWith hdr ''Bearer '')
           \<or> (\<exists>hdr e. req_authorization req = Some hdr \<and> jwt_verify ev (drop 7 hdr) = Inl e)
           \<or> (\<exists>hdr uid. req_authorization req = Some hdr \<and> jwt_verify ev (drop 7 hdr) = Inr uid
                 \<and> \<not> list_ex (\<lambda>u. u_id u = uid) (users st))"
  proof -
    have "\<exists>msg. isAuthenticated ev ?r st = Inl (status_json 401 msg)"
      using that
      by (auto simp: isAuthenticated_def select_user_by_id_Nil[symmetric]
          split: option.splits sum.splits list.splits)
    then show ?thesis by (auto simp: guarded_def status_json_def)
  qed
  show ?thesis
    using d s n f by (intro exI[of _ "fst ?out"]) (auto simp: prod_eq_iff)
qed

theorem get_auth_user_status_witness:
  "dispatch env0 (req0\<lparr>req_authorization := Some ''Bearer tok-u3'', req_method := GET,
                       req_path := [''api'', ''auth'', ''user'']\<rparr>) store0
     = Some (status_json 401 ''User not found'', store0)
   \<and> jwt_verify env0 (drop 7 ''Bearer tok-u3'') = Inr ''u3''
   \<and> \<not> list_ex (\<lambda>u. u_id u = ''u3'') (users store0)"
proof -
  have v: "jwt_verify env0 (drop 7 ''Bearer tok-u3'') = Inr ''u3''"
    by (simp add: env0_def verify0_def)
  have n: "\<not> list_ex (\<lambda>u. u_id u = ''u3'') (users store0)"
    by (simp add: store0_def alice_def bob_def)
  have e: "dispatch env0 (req0\<lparr>req_authorization := Some ''Bearer tok-u3'', req_method := GET,
                       req_path := [''api'', ''auth'', ''user'']\<rparr>) store0
     = Some (status_json 401 ''User not found'', store0)"
    by (simp add: dispatch_def routes_def guarded_def isAuthenticated_def select_user_by_id_def
        env0_def verify0_def req0_def store0_def alice_def bob_def)
  show ?thesis
    using get_auth_user_status[of env0 "req0\<lparr>req_authorization := Some ''Bearer tok-u3''\<rparr>" store0] v n e
    by simp
qed

text \<open>
  The claim as stated fails: \<^verbatim>\<open>tok-u3\<close> verifies and names the id \<^verbatim>\<open>u3\<close>, which has no row,
  and the response is 401, not 404.
\<close>

theorem get_auth_user_vanished_counterexample:
  "jwt_verify env0 (drop 7 ''Bearer tok-u3'') = Inr ''u3''
   \<and> select_user_by_id ''u3'' store0 = []
   \<and> map_option (\<lambda>r. status (fst r))
        (dispatch env0 (req0\<lparr>req_method := GET, req_path := [''api'', ''auth'', ''user''],
                             req_authorization := Some ''Bearer tok-u3''\<rparr>) store0) = Some 401"
  by (simp add: dispatch_def routes_def guarded_def isAuthenticated_def select_user_by_id_def
      env0_def verify0_def req0_def store0_def alice_def bob_def status_json_def)

section \<open>GET /api/expenses\<close>

lemma getExpenses_owned: "e \<in> set (getExpenses userId filters es) \<Longrightarrow> owned_by userId e \<and> e \<in> set es"
  by (simp add: getExpenses_def)

lemma getExpenses_undefined: "getExpenses JUndefined filters es = []"
  by (simp add: getExpenses_def owned_by_def)

lemma guarded_get_expenses_first:
  "guarded get_expenses_first ev req st = (resp, st') \<Longrightarrow>
     st' = st \<and> (case isAuthenticated ev req st of
                    Inl r \<Rightarrow> resp = r
                  | Inr req' \<Rightarrow> resp = json (ExpenseList []))"
proof (cases "isAuthenticated ev req st")
  case (Inl r)
  assume "guarded get_expenses_first ev req st = (resp, st')"
  with Inl show ?thesis by (simp add: guarded_def)
next
  case (Inr req')
  assume g: "guarded get_expenses_first ev req st = (resp, st')"
  from isAuthenticated_Inr[OF Inr] obtain u where
    "req' = req\<lparr>req_userId := JStr (u_id u), req_user := Some (user_obj u)\<rparr>" by blast
  then have "req_user_userId req' = Some JUndefined"
    by (simp add: req_user_userId_def js_get_def user_obj_def)
  with g Inr show ?thesis
    by (auto simp: guarded_def get_expenses_first_def getExpenses_undefined)
qed

text \<open>
  Both registered handlers return only rows of the store whose \<^verbatim>\<open>user_id\<close> is the value they
  read from \<^verbatim>\<open>req.user.userId\<close>, whatever the query.
\<close>

lemma get_expenses_handlers_scoped:
  assumes "get_expenses_first ev req st = (resp, st') \<or> get_expenses_second ev req st = (resp, st')"
      and "body resp = ExpenseList xs"
  shows "(\<forall>e \<in> set xs. req_user_userId req = Some (JStr (e_userId e)))
         \<and> set xs \<subseteq> set (expenses st) \<and> st' = st"
  using assms
  by (auto simp: get_expenses_first_def get_expenses_second_def json_def status_json_def
      getExpenses_def owned_by_def split: option.splits)

text \<open>
  C1. For a \<^verbatim>\<open>GET /api/expenses\<close> with any query \<open>q\<close> that is answered with a list of
  expenses, the request carried a token that verifies for a user id, every expense of the
  list has that user id, and no expense of the store that belongs to another user is in the
  list; the list holds rows of the store only and the store is unchanged. At the level of the
  two registered handlers, for any request object: every expense returned has the user id
  the handler read as the caller's identity.
\<close>

theorem get_expenses_tenant_isolation:
  "(\<forall>resp st' xs.
      dispatch ev (req\<lparr>req_query := q, req_method := GET, req_path := [''api'', ''expenses'']\<rparr>) st
        = Some (resp, st') \<and> body resp = ExpenseList xs
      \<longrightarrow> (\<exists>hdr uid. req_authorization req = Some hdr \<and> jwt_verify ev (drop 7 hdr) = Inr uid
             \<and> (\<forall>e \<in> set xs. e_userId e = uid)
             \<and> (\<forall>e \<in> set (expenses st). e_userId e \<noteq> uid \<longrightarrow> e \<notin> set xs)
             \<and> set xs \<subseteq> set (expenses st) \<and> st' = st))
   \<and> (\<forall>resp st' xs.
        (get_expenses_first ev req st = (resp, st') \<or> get_expenses_second ev req st = (resp, st'))
        \<and> body resp = ExpenseList xs
        \<longrightarrow> (\<forall>e \<in> set xs. req_user_userId req = Some (JStr (e_userId e)))
            \<and> set xs \<subseteq> set (expenses st) \<and> st' = st)"
proof -
  have route: "\<exists>hdr uid. req_authorization req = Some hdr \<and> jwt_verify ev (drop 7 hdr) = Inr uid
             \<and> (\<forall>e \<in> set xs. e_userId e = uid)
             \<and> (\<forall>e \<in> set (expenses st). e_userId e \<noteq> uid \<longrightarrow> e \<notin> set xs)
             \<and> set xs \<subseteq> set (expenses st) \<and> st' = st"
    if a: "dispatch ev (req\<lparr>req_query := q, req_method := GET, req_path := [''api'', ''expenses'']\<rparr>) st
        = Some (resp, st') \<and> body resp = ExpenseList xs" for resp st' xs
  proof -
    let ?r = "req\<lparr>req_query := q, req_method := GET, req_path := [''api'', ''expenses''], req_params := []\<rparr>"
    have "dispatch ev (req\<lparr>req_query := q, req_method := GET, req_path := [''api'', ''expenses'']\<rparr>) st
            = Some (guarded get_expenses_first ev ?r st)"
      by (rule dispatch_get_expenses)
    with a have g: "guarded get_expenses_first ev ?r st = (resp, st')" by simp
    from guarded_get_expenses_first[OF g] have st: "st' = st"
      and c: "case isAuthenticated ev ?r st of Inl r \<Rightarrow> resp = r | Inr req' \<Rightarrow> resp = json (ExpenseList [])"
      by simp_all
    show ?thesis
    proof (cases "isAuthenticated ev ?r st")
      case (Inl r)
      with c isAuthenticated_Inl[OF Inl] a show ?thesis
        by (auto simp: status_json_def)
    next
      case (Inr req')
      with c a have "xs = []" by (simp add: json_def)
      moreover from isAuthenticated_Inr[OF Inr] obtain hdr uid where
        "req_authorization req = Some hdr" "jwt_verify ev (drop 7 hdr) = Inr uid" by auto
      ultimately show ?thesis using st by auto
    qed
  qed
  have handlers: "(\<forall>e \<in> set xs. req_user_userId req = Some (JStr (e_userId e)))
            \<and> set xs \<subseteq> set (expenses st) \<and> st' = st"
    if "(get_expenses_first ev req st = (resp, st') \<or> get_expenses_second ev req st = (resp, st'))
        \<and> body resp = ExpenseList xs" for resp st' xs
    using that get_expenses_handlers_scoped[of ev req st resp st' xs] by blast
  from route handlers show ?thesis by blast
qed

theorem get_expenses_tenant_isolation_witness:
  "dispatch env0 (req0\<lparr>req_authorization := Some ''Bearer tok-u1'',
                       req_query := [(''category'', ''housing'')], req_method := GET,
                       req_path := [''api'', ''expenses'']\<rparr>) store0
     = Some (json (ExpenseList []), store0)
   \<and> jwt_verify env0 (drop 7 ''Bearer tok-u1'') = Inr ''u1''
   \<and> get_expenses_second env0 (req0\<lparr>req_user := Some [(''userId'', JStr ''u1'')],
                                    req_query := [(''category'', ''housing'')]\<rparr>) store0
     = (json (ExpenseList []), store0)
   \<and> get_expenses_first env0 (req0\<lparr>req_user := Some [(''userId'', JStr ''u1'')],
                                   req_query := [(''category'', ''housing'')]\<rparr>) store0
     = (json (ExpenseList [lunch, taxi]), store0)
   \<and> e_userId lunch = ''u1'' \<and> e_userId taxi = ''u1''
   \<and> rent \<in> set (expenses store0) \<and> e_userId rent = ''u2'' \<and> e_category rent = ''housing''
   \<and> rent \<notin> set [lunch, taxi]"
proof -
  have d: "dispatch env0 (req0\<lparr>req_authorization := Some ''Bearer tok-u1'',
                       req_query := [(''category'', ''housing'')], req_method := GET,
                       req_path := [''api'', ''expenses'']\<rparr>) store0
     = Some (json (ExpenseList []), store0)"
    by (simp add: dispatch_def routes_def guarded_def isAuthenticated_def select_user_by_id_def
        get_expenses_first_def req_user_userId_def js_get_def user_obj_def getExpenses_undefined
        env0_def verify0_def req0_def store0_def alice_def bob_def)
  have b: "body (json (ExpenseList ys)) = ExpenseList ys" for ys by (simp add: json_def)
  have v: "jwt_verify env0 (drop 7 ''Bearer tok-u1'') = Inr ''u1''"
    by (simp add: env0_def verify0_def)
  have f: "filter_category [] e \<and> filter_startDate [] e \<and> filter_endDate [] e
           \<and> filter_tags [] e \<and> filter_search [] e" for e
    by (simp add: filter_category_def filter_startDate_def filter_endDate_def filter_tags_def
        filter_search_def js_get_def)
  have h1: "get_expenses_first env0 (req0\<lparr>req_user := Some [(''userId'', JStr ''u1'')],
                                   req_query := [(''category'', ''housing'')]\<rparr>) store0
     = (json (ExpenseList [lunch, taxi]), store0)"
    by (simp add: get_expenses_first_def req_user_userId_def js_get_def getExpenses_def f
        owned_by_def req0_def store0_def lunch_def taxi_def rent_def mk_expense_def)
  have q: "query_filters env0 (req0\<lparr>req_user := Some [(''userId'', JStr ''u1'')],
                                   req_query := [(''category'', ''housing'')]\<rparr>)
             = [(''category'', JStr ''housing'')]"
    by (simp add: query_filters_def convert_tags_def convert_date_def fields_obj_def js_get_def req0_def)
  have g: "filter_category [(''category'', JStr ''housing'')] e = (e_category e = ''housing'')" for e
    by (simp add: filter_category_def js_get_def)
  have h2: "get_expenses_second env0 (req0\<lparr>req_user := Some [(''userId'', JStr ''u1'')],
                                    req_query := [(''category'', ''housing'')]\<rparr>) store0
     = (json (ExpenseList []), store0)"
    unfolding get_expenses_second_def q
    by (simp add: req_user_userId_def js_get_def getExpenses_def g
        owned_by_def req0_def store0_def lunch_def taxi_def rent_def mk_expense_def)
  have r: "rent \<in> set (expenses store0)" "e_userId rent = ''u2''" "e_category rent = ''housing''"
      "e_userId lunch = ''u1''" "e_userId taxi = ''u1''" "rent \<notin> set [lunch, taxi]"
    by (simp_all add: store0_def rent_def lunch_def taxi_def mk_expense_def)
  show ?thesis
    using get_expenses_tenant_isolation[where ev = env0
          and req = "req0\<lparr>req_authorization := Some ''Bearer tok-u1''\<rparr>"
          and q = "[(''category'', ''housing'')]" and st = store0]
      get_expenses_tenant_isolation[where ev = env0
          and req = "req0\<lparr>req_user := Some [(''userId'', JStr ''u1'')],
                         req_query := [(''category'', ''housing'')]\<rparr>"
          and q = "[]" and st = store0]
      d b v h1 h2 r by simp
qed

text \<open>
  The first handler does not look at the query; the second returns only rows that pass every
  filter of the query.
\<close>

lemma get_expenses_first_ignores_query:
  "get_expenses_first ev (req\<lparr>req_query := q\<rparr>) st = get_expenses_first ev req st"
  by (simp add: get_expenses_first_def req_user_userId_def)










section \<open>PATCH and DELETE /api/expenses/:id\<close>

text \<open>
  None of the handlers that change an expense has a 404: a failure of the storage module is
  caught and answered with 500, anything else is a 200.
\<close>

lemma mutation_handlers_never_404:
  "status (fst (patch_expense ev req st)) \<noteq> 404
   \<and> status (fst (delete_expense ev req st)) \<noteq> 404
   \<and> status (fst (put_expense ev req st)) \<noteq> 404"
  by (simp add: patch_expense_def delete_expense_def put_expense_def status_json_def json_def
      Let_def split: option.splits sum.splits prod.splits)

lemma updateExpense_NotFound_unowned:
  "\<not> list_ex (\<lambda>e. JStr (e_id e) = eid \<and> owned_by userId e) es \<Longrightarrow>
     updateExpense ev eid userId updates es = Inl NotFound \<and> deleteExpense eid userId es = Inl NotFound"
proof -
  assume "\<not> list_ex (\<lambda>e. JStr (e_id e) = eid \<and> owned_by userId e) es"
  then have "find (\<lambda>e. JStr (e_id e) = eid \<and> owned_by userId e) es = None"
    by (simp add: find_None_iff list_ex_iff)
  then show ?thesis by (simp add: updateExpense_def deleteExpense_def getExpenseById_def)
qed

lemma unowned_mutation_fails:
  assumes "req_user_userId req = Some userId"
      and "\<not> list_ex (\<lambda>e. JStr (e_id e) = param_id req \<and> owned_by userId e) (expenses st)"
  shows "patch_expense ev req st = (status_json 500 ''Failed to update expense'', st)
         \<and> put_expense ev req st = (status_json 500 ''Failed to update expense'', st)
         \<and> delete_expense ev req st = (status_json 500 ''Failed to delete expense'', st)"
  using assms updateExpense_NotFound_unowned[OF assms(2)]
  by (simp add: patch_expense_def put_expense_def delete_expense_def Let_def)

text \<open>
  C4. Bob, with a valid token, sends \<^verbatim>\<open>PATCH\<close> and \<^verbatim>\<open>DELETE /api/expenses/e1\<close>; the expense
  \<^verbatim>\<open>e1\<close> exists and belongs to Alice. Both calls are answered with 500, not 404, and the
  store is unchanged. The same holds when the handlers are called with Bob's id under
  \<^verbatim>\<open>req.user.userId\<close>.
\<close>

theorem cross_tenant_mutation_not_404:
  "dispatch env0 (req0\<lparr>req_method := PATCH, req_path := [''api'', ''expenses'', ''e1''],
                       req_authorization := Some ''Bearer tok-u2'',
                       req_body := [(''category'', ''hacked'')]\<rparr>) store0
     = Some (status_json 500 ''Failed to update expense'', store0)
   \<and> dispatch env0 (req0\<lparr>req_method := DELETE, req_path := [''api'', ''expenses'', ''e1''],
                         req_authorization := Some ''Bearer tok-u2''\<rparr>) store0
     = Some (status_json 500 ''Failed to delete expense'', store0)
   \<and> patch_expense env0 (req0\<lparr>req_user := Some [(''userId'', JStr ''u2'')],
                               req_params := [(''id'', ''e1'')],
                               req_body := [(''category'', ''hacked'')]\<rparr>) store0
     = (status_json 500 ''Failed to update expense'', store0)
   \<and> delete_expense env0 (req0\<lparr>req_user := Some [(''userId'', JStr ''u2'')],
                                req_params := [(''id'', ''e1'')]\<rparr>) store0
     = (status_json 500 ''Failed to delete expense'', store0)
   \<and> e_id lunch = ''e1'' \<and> e_userId lunch = ''u1'' \<and> List.member (expenses store0) lunch"
proof -
  have a: "dispatch env0 (req0\<lparr>req_method := PATCH, req_path := [''api'', ''expenses'', ''e1''],
                       req_authorization := Some ''Bearer tok-u2'',
                       req_body := [(''category'', ''hacked'')]\<rparr>) store0
     = Some (status_json 500 ''Failed to update expense'', store0)"
    by (simp add: dispatch_def routes_def guarded_def isAuthenticated_def select_user_by_id_def
        patch_expense_def param_id_def field_def req_user_userId_def js_get_def user_obj_def
        updateExpense_def getExpenseById_def owned_by_def env0_def verify0_def req0_def
        store0_def alice_def bob_def)
  have b: "dispatch env0 (req0\<lparr>req_method := DELETE, req_path := [''api'', ''expenses'', ''e1''],
                         req_authorization := Some ''Bearer tok-u2''\<rparr>) store0
     = Some (status_json 500 ''Failed to delete expense'', store0)"
    by (simp add: dispatch_def routes_def guarded_def isAuthenticated_def select_user_by_id_def
        delete_expense_def param_id_def field_def req_user_userId_def js_get_def user_obj_def
        deleteExpense_def getExpenseById_def owned_by_def env0_def verify0_def req0_def
        store0_def alice_def bob_def)
  have c: "patch_expense env0 (req0\<lparr>req_user := Some [(''userId'', JStr ''u2'')],
                               req_params := [(''id'', ''e1'')],
                               req_body := [(''category'', ''hacked'')]\<rparr>) store0
     = (status_json 500 ''Failed to update expense'', store0)"
    by (simp add: patch_expense_def param_id_def field_def req_user_userId_def js_get_def
        updateExpense_def getExpenseById_def owned_by_def req0_def store0_def
        lunch_def taxi_def rent_def mk_expense_def)
  have d: "delete_expense env0 (req0\<lparr>req_user := Some [(''userId'', JStr ''u2'')],
                                req_params := [(''id'', ''e1'')]\<rparr>) store0
     = (status_json 500 ''Failed to delete expense'', store0)"
    by (simp add: delete_expense_def param_id_def field_def req_user_userId_def js_get_def
        deleteExpense_def getExpenseById_def owned_by_def req0_def store0_def
        lunch_def taxi_def rent_def mk_expense_def)
  have e: "e_id lunch = ''e1''" "e_userId lunch = ''u1''" "List.member (expenses store0) lunch"
    by (simp_all add: lunch_def mk_expense_def store0_def)
  from a b c d e show ?thesis by simp
qed

section \<open>POST /api/expenses\<close>

text \<open>
  The handler that serves \<^verbatim>\<open>POST /api/expenses\<close> does not consult the AI service: its
  outcome is the same whatever \<^verbatim>\<open>analyzeExpense\<close> is.
\<close>

lemma post_expenses_first_ignores_ai:
  "post_expenses_first (ev\<lparr>analyzeExpense := a\<rparr>) req st = post_expenses_first ev req st"
  by (simp add: post_expenses_first_def createExpense_def Let_def
      cong: option.case_cong sum.case_cong)

lemma dispatch_post_expenses_ignores_ai:
  "dispatch (ev\<lparr>analyzeExpense := a\<rparr>) (req\<lparr>req_method := POST, req_path := [''api'', ''expenses'']\<rparr>) st
     = dispatch ev (req\<lparr>req_method := POST, req_path := [''api'', ''expenses'']\<rparr>) st"
proof -
  have "isAuthenticated (ev\<lparr>analyzeExpense := a\<rparr>) r st = isAuthenticated ev r st" for r
    by (simp add: isAuthenticated_def cong: option.case_cong sum.case_cong if_cong)
  then show ?thesis
    by (simp add: dispatch_post_expenses guarded_def post_expenses_first_ignores_ai
        cong: sum.case_cong)
qed

text \<open>
  C8. Alice posts an expense with the description \<^verbatim>\<open>Uber to airport\<close>, an amount, a type
  and a date, and no category. The
  request is served by the first registration (lines 46-63): no categorization happens, the
  data reaches the insert without a category (and, behind \<^verbatim>\<open>isAuthenticated\<close>, without a
  user id) and the answer is 500, with nothing stored; the same when the handler is called
  with Alice's id under \<^verbatim>\<open>req.user.userId\<close>. The second
  registration (lines 157-179), which Express never reaches, would store the expense with the
  category and tags of the AI service.
\<close>

theorem post_expenses_not_categorized:
  "dispatch env0 (req0\<lparr>req_method := POST, req_path := [''api'', ''expenses''],
                       req_authorization := Some ''Bearer tok-u1'',
                       req_body := [(''description'', ''Uber to airport''), (''amount'', ''23.50''),
                                    (''type'', ''expense''), (''date'', ''1970-01-01'')]\<rparr>) store0
     = Some (status_json 500 ''Failed to create expense'', store0)
   \<and> post_expenses_first env0
         (req0\<lparr>req_user := Some [(''userId'', JStr ''u1'')],
               req_body := [(''description'', ''Uber to airport''), (''amount'', ''23.50''),
                            (''type'', ''expense''), (''date'', ''1970-01-01'')]\<rparr>) store0
     = (status_json 500 ''Failed to create expense'', store0)
   \<and> fst (post_expenses_second env0
         (req0\<lparr>req_user := Some [(''userId'', JStr ''u1'')],
               req_body := [(''description'', ''Uber to airport''), (''amount'', ''23.50''),
                            (''type'', ''expense''), (''date'', ''1970-01-01'')]\<rparr>) store0)
     = json (ExpenseBody (Some
         \<lparr>e_id = ''e9'', e_userId = ''u1'', e_amount = ''23.50'', e_type = ''expense'',
          e_description = ''Uber to airport'', e_category = ''transport'', e_date = 0,
          e_location = None, e_latitude = None, e_longitude = None, e_mood = None,
          e_rating = None, e_receiptUrl = None, e_tags = Some [''travel''],
          e_createdAt = Some 1000, e_updatedAt = Some 1000\<rparr>))"
proof -
  have a: "dispatch env0 (req0\<lparr>req_method := POST, req_path := [''api'', ''expenses''],
                       req_authorization := Some ''Bearer tok-u1'',
                       req_body := [(''description'', ''Uber to airport''), (''amount'', ''23.50''),
                                    (''type'', ''expense''), (''date'', ''1970-01-01'')]\<rparr>) store0
     = Some (status_json 500 ''Failed to create expense'', store0)"
    by (simp add: dispatch_def routes_def guarded_def isAuthenticated_def select_user_by_id_def
        post_expenses_first_def receipt_of_file_def field_def fields_obj_def req_user_userId_def
        js_get_def user_obj_def createExpense_def insert_row0_def text0_def env0_def verify0_def
        req0_def store0_def alice_def bob_def)
  have b: "post_expenses_first env0
         (req0\<lparr>req_user := Some [(''userId'', JStr ''u1'')],
               req_body := [(''description'', ''Uber to airport''), (''amount'', ''23.50''),
                            (''type'', ''expense''), (''date'', ''1970-01-01'')]\<rparr>) store0
     = (status_json 500 ''Failed to create expense'', store0)"
    by (simp add: post_expenses_first_def receipt_of_file_def field_def fields_obj_def
        req_user_userId_def js_get_def createExpense_def insert_row0_def text0_def amount0_def
        timestamp0_def date0_def env0_def req0_def)
  have c: "fst (post_expenses_second env0
         (req0\<lparr>req_user := Some [(''userId'', JStr ''u1'')],
               req_body := [(''description'', ''Uber to airport''), (''amount'', ''23.50''),
                            (''type'', ''expense''), (''date'', ''1970-01-01'')]\<rparr>) store0)
     = json (ExpenseBody (Some
         \<lparr>e_id = ''e9'', e_userId = ''u1'', e_amount = ''23.50'', e_type = ''expense'',
          e_description = ''Uber to airport'', e_category = ''transport'', e_date = 0,
          e_location = None, e_latitude = None, e_longitude = None, e_mood = None,
          e_rating = None, e_receiptUrl = None, e_tags = Some [''travel''],
          e_createdAt = Some 1000, e_updatedAt = Some 1000\<rparr>))"
    by (simp add: post_expenses_second_def field_def fields_obj_def req_user_userId_def
        js_get_def js_set_def createExpense_def insert_row0_def text0_def amount0_def
        timestamp0_def date0_def env0_def req0_def)
  from a b c show ?thesis by simp
qed


end
